theory Spec2Isabelle
  imports Main "HOL-Library.Word" "HOL-Library.AList" "HOL-Library.Sublist"
begin

section \<open>Values, errors and the data model of package registry\<close>

text \<open>
  A Go \<open>interface{}\<close> holding a registry value: the dynamic types that \<open>readValue\<close> produces
  and \<open>writeValue\<close> accepts, \<open>nil\<close>, and \<open>float64\<close>, which is what \<open>encoding/json\<close> decodes
  every JSON number into when the target is an \<open>interface{}\<close>. \<open>VFloat64 n\<close> stands for the
  float64 nearest to the integer \<open>n\<close>; no function of the program reads its magnitude.
\<close>

type_synonym byte = "8 word"

datatype go_value =
    VNil
  | VString string
  | VUint32 "32 word"
  | VUint64 "64 word"
  | VBytes "byte list"
  | VFloat64 nat

text \<open>The value-type codes of \<open>golang.org/x/sys/windows/registry\<close> (type \<open>uint32\<close>).\<close>

definition SZ :: "32 word" where "SZ = 1"
definition EXPAND_SZ :: "32 word" where "EXPAND_SZ = 2"
definition BINARY :: "32 word" where "BINARY = 3"
definition DWORD :: "32 word" where "DWORD = 4"
definition QWORD :: "32 word" where "QWORD = 11"

text \<open>A value as the registry stores it, tagged with its stored type.\<close>

datatype reg_value =
    REG_SZ string
  | REG_EXPAND_SZ string
  | REG_BINARY "byte list"
  | REG_DWORD "32 word"
  | REG_QWORD "64 word"

text \<open>
  Errors. The operating-system errors are constructors of their own; an error built by
  \<open>fmt.Errorf\<close> keeps its message, \<open>Wrapf msg e\<close> being \<open>fmt.Errorf(msg + ": %w", e)\<close> and
  \<open>Encountered n what\<close> being \<open>fmt.Errorf("encountered %d errors during " + what, n)\<close>.
\<close>

datatype error =
    ErrNotExist
  | ErrUnexpectedType
  | ErrAccessDenied
  | ErrJSONSyntax
  | ErrSyntax
  | ErrRange
  | Errorf string
  | Wrapf string error
  | Encountered nat string

text \<open>\<open>registry.Key\<close> is a handle (\<open>uintptr\<close>); the predefined roots are fixed numbers.\<close>

type_synonym Key = "64 word"

definition CURRENT_USER :: Key where "CURRENT_USER = 0x80000001"
definition LOCAL_MACHINE :: Key where "LOCAL_MACHINE = 0x80000002"

record Entry =
  Root :: Key
  Path :: string
  Name :: string
  Value :: go_value
  Type :: "32 word"

record Backup =
  Entry :: Entry
  Existed :: bool

record SerializableBackup =
  sb_RootKey :: "32 word"
  sb_Path :: string
  sb_Name :: string
  sb_Value :: go_value
  sb_Type :: "32 word"
  sb_Existed :: bool

record Manager =
  entries :: "Entry list"
  backupPath :: string

text \<open>A number as \<open>%d\<close> prints it.\<close>

fun decimal :: "nat \<Rightarrow> string" where
  "decimal n =
     (if n < 10 then [char_of (48 + n)] else decimal (n div 10) @ [char_of (48 + n mod 10)])"

declare decimal.simps [simp del]

text \<open>The path separator; a registry path is written as the list of its components.\<close>

definition sep :: string where "sep = [CHR 0x5C]"

fun reg_path :: "string list \<Rightarrow> string" where
  "reg_path [] = []"
| "reg_path [c] = c"
| "reg_path (c # cs) = c @ sep @ reg_path cs"

section \<open>The environment: registry, files, service manager, clock, log\<close>

text \<open>
  The operating system is outside the repository. It is a record that every operation
  takes and returns: the registry as an association list from (root, path) to the named
  values of that key, the files under their paths, the installed services, a clock in
  milliseconds and the log lines written so far. What the code cannot control (whether an
  access is denied, whether a file operation fails, what the service manager answers) is a
  field of the record that no operation changes.

  A key is identified by its root and its full path, compared as written; parent keys and
  subkeys are not tracked. Failures of the registry are failures to obtain a handle with
  the access asked for; an operation on a handle obtained with the right access succeeds.
\<close>

datatype access = QUERY_VALUE | SET_VALUE | DELETE

datatype fs_op = OsMkdirAll | OsWriteFile | OsReadFile | OsRemove

datatype json_value = JNull | JString string | JNumber nat

text \<open>A file is either text that is not a JSON array of backup records, or such an array.\<close>

datatype file_content =
    Malformed
  | Json "(32 word \<times> string \<times> string \<times> json_value \<times> 32 word \<times> bool) list"

type_synonym key_id = "Key \<times> string"
type_synonym key_values = "(string \<times> reg_value) list"

type_synonym Level = nat

record world =
  registry :: "(key_id \<times> key_values) list"
  reg_denied :: "key_id \<Rightarrow> access \<Rightarrow> bool"
  files :: "(string \<times> file_content) list"
  fs_fails :: "fs_op \<Rightarrow> string \<Rightarrow> bool"
  environ :: "string \<Rightarrow> string"
  executable :: "error + string"
  connect_fails :: bool
  services :: "string list"
  create_fails :: "string \<Rightarrow> bool"
  start_fails :: "string \<Rightarrow> bool"
  delete_fails :: "string \<Rightarrow> bool"
  control_stop :: "string \<Rightarrow> nat \<Rightarrow> 32 word \<times> error option"
  query :: "string \<Rightarrow> nat \<Rightarrow> error + 32 word"
  clock :: nat
  sleep_overrun :: "nat \<Rightarrow> nat"
  log_lines :: "(Level \<times> string) list"

subsection \<open>The registry calls the program uses\<close>

definition OpenKey :: "Key \<Rightarrow> string \<Rightarrow> access \<Rightarrow> world \<Rightarrow> error + key_id" where
  "OpenKey root path a w =
     (case map_of (registry w) (root, path) of
        None \<Rightarrow> Inl ErrNotExist
      | Some vs \<Rightarrow> if reg_denied w (root, path) a then Inl ErrAccessDenied else Inr (root, path))"

definition CreateKey :: "Key \<Rightarrow> string \<Rightarrow> access \<Rightarrow> world \<Rightarrow> (error + key_id) \<times> world" where
  "CreateKey root path a w =
     (if reg_denied w (root, path) a then (Inl ErrAccessDenied, w)
      else case map_of (registry w) (root, path) of
             Some vs \<Rightarrow> (Inr (root, path), w)
           | None \<Rightarrow> (Inr (root, path),
                       w\<lparr>registry := AList.update (root, path) [] (registry w)\<rparr>))"

definition GetValue :: "key_id \<Rightarrow> string \<Rightarrow> world \<Rightarrow> reg_value option" where
  "GetValue k name w =
     (case map_of (registry w) k of None \<Rightarrow> None | Some vs \<Rightarrow> map_of vs name)"

definition GetStringValue :: "key_id \<Rightarrow> string \<Rightarrow> world \<Rightarrow> error + string" where
  "GetStringValue k name w =
     (case GetValue k name w of
        None \<Rightarrow> Inl ErrNotExist
      | Some (REG_SZ s) \<Rightarrow> Inr s
      | Some (REG_EXPAND_SZ s) \<Rightarrow> Inr s
      | Some v \<Rightarrow> Inl ErrUnexpectedType)"

definition GetIntegerValue :: "key_id \<Rightarrow> string \<Rightarrow> world \<Rightarrow> error + 64 word" where
  "GetIntegerValue k name w =
     (case GetValue k name w of
        None \<Rightarrow> Inl ErrNotExist
      | Some (REG_DWORD d) \<Rightarrow> Inr (ucast d)
      | Some (REG_QWORD q) \<Rightarrow> Inr q
      | Some v \<Rightarrow> Inl ErrUnexpectedType)"

definition GetBinaryValue :: "key_id \<Rightarrow> string \<Rightarrow> world \<Rightarrow> error + byte list" where
  "GetBinaryValue k name w =
     (case GetValue k name w of
        None \<Rightarrow> Inl ErrNotExist
      | Some (REG_BINARY bs) \<Rightarrow> Inr bs
      | Some v \<Rightarrow> Inl ErrUnexpectedType)"

definition SetValue :: "key_id \<Rightarrow> string \<Rightarrow> reg_value \<Rightarrow> world \<Rightarrow> error option \<times> world" where
  "SetValue k name v w =
     (None, w\<lparr>registry := AList.map_entry k (AList.update name v) (registry w)\<rparr>)"

definition DeleteValue :: "key_id \<Rightarrow> string \<Rightarrow> world \<Rightarrow> error option \<times> world" where
  "DeleteValue k name w =
     (case GetValue k name w of
        None \<Rightarrow> (Some ErrNotExist, w)
      | Some v \<Rightarrow> (None, w\<lparr>registry := AList.map_entry k (AList.delete name) (registry w)\<rparr>))"

definition ReadValueNames :: "key_id \<Rightarrow> world \<Rightarrow> error + string list" where
  "ReadValueNames k w =
     (case map_of (registry w) k of None \<Rightarrow> Inl ErrNotExist | Some vs \<Rightarrow> Inr (map fst vs))"

definition DeleteKey :: "Key \<Rightarrow> string \<Rightarrow> world \<Rightarrow> error option \<times> world" where
  "DeleteKey root path w =
     (case map_of (registry w) (root, path) of
        None \<Rightarrow> (Some ErrNotExist, w)
      | Some vs \<Rightarrow>
          if reg_denied w (root, path) DELETE then (Some ErrAccessDenied, w)
          else (None, w\<lparr>registry := AList.delete (root, path) (registry w)\<rparr>))"

subsection \<open>Files and JSON\<close>

text \<open>
  \<open>filepath.Clean\<close>, \<open>filepath.Join\<close> (of two elements) and \<open>filepath.Dir\<close> as package
  \<open>path/filepath\<close> has them on Windows, for paths that are relative, rooted or start with a
  drive letter: both slashes separate, the result is written with the backslash, empty and
  \<open>.\<close> elements are dropped and \<open>..\<close> takes back the element before it. UNC and device
  paths are not covered.
\<close>

definition is_slash :: "char \<Rightarrow> bool" where
  "is_slash c = (c = CHR 0x5C \<or> c = CHR ''/'')"

definition is_letter :: "char \<Rightarrow> bool" where
  "is_letter c =
     ((65 \<le> (of_char c :: nat) \<and> (of_char c :: nat) \<le> 90) \<or>
      (97 \<le> (of_char c :: nat) \<and> (of_char c :: nat) \<le> 122))"

fun volume :: "string \<Rightarrow> string" where
  "volume (d # c # rest) = (if is_letter d \<and> c = CHR '':'' then [d, c] else [])"
| "volume p = []"

fun components :: "string \<Rightarrow> string list" where
  "components [] = [[]]"
| "components (c # cs) =
     (if is_slash c then [] # components cs
      else case components cs of x # xs \<Rightarrow> (c # x) # xs | [] \<Rightarrow> [[c]])"

fun clean_elems :: "bool \<Rightarrow> string list \<Rightarrow> string list \<Rightarrow> string list" where
  "clean_elems rooted [] out = rev out"
| "clean_elems rooted (e # es) out =
     (if e = [] \<or> e = ''.'' then clean_elems rooted es out
      else if e = ''..'' then
        (case out of
           [] \<Rightarrow> if rooted then clean_elems rooted es out else clean_elems rooted es [e]
         | x # xs \<Rightarrow>
             if x = ''..'' then clean_elems rooted es (e # out) else clean_elems rooted es xs)
      else clean_elems rooted es (e # out))"

definition clean_rest :: "string \<Rightarrow> string" where
  "clean_rest r =
     (case r of
        [] \<Rightarrow> ''.''
      | c # cs \<Rightarrow>
          let rooted = is_slash c;
              out = clean_elems rooted (components r) []
          in if rooted then sep @ reg_path out
             else if out = [] then ''.'' else reg_path out)"

definition filepath_Clean :: "string \<Rightarrow> string" where
  "filepath_Clean p = volume p @ clean_rest (drop (length (volume p)) p)"

definition filepath_Join :: "string \<Rightarrow> string \<Rightarrow> string" where
  "filepath_Join dir name =
     (let joined =
            (if dir = [] then name
             else if is_slash (last dir) then dir @ dropWhile is_slash name
             else if last dir = CHR '':'' then dir @ name
             else dir @ sep @ name)
      in if joined = [] then [] else filepath_Clean joined)"

definition filepath_Dir :: "string \<Rightarrow> string" where
  "filepath_Dir p =
     (let vol = volume p;
          rest = drop (length vol) p
      in vol @ clean_rest (rev (dropWhile (\<lambda>c. \<not> is_slash c) (rev rest))))"

text \<open>The standard base64 alphabet with padding, as \<open>encoding/json\<close> writes a \<open>[]byte\<close>.\<close>

definition b64_char :: "nat \<Rightarrow> char" where
  "b64_char i =
     ''ABCDEFGHIJKLMNOPQRSTUVWXYZabcdefghijklmnopqrstuvwxyz0123456789+/'' ! (i mod 64)"

fun base64 :: "byte list \<Rightarrow> string" where
  "base64 [] = []"
| "base64 [a] =
     (let n = unat a * 65536
      in [b64_char (n div 262144), b64_char (n div 4096), CHR ''='', CHR ''=''])"
| "base64 [a, b] =
     (let n = unat a * 65536 + unat b * 256
      in [b64_char (n div 262144), b64_char (n div 4096), b64_char (n div 64), CHR ''=''])"
| "base64 (a # b # c # rest) =
     (let n = unat a * 65536 + unat b * 256 + unat c
      in [b64_char (n div 262144), b64_char (n div 4096), b64_char (n div 64), b64_char n]
         @ base64 rest)"

fun json_encode :: "go_value \<Rightarrow> json_value" where
  "json_encode VNil = JNull"
| "json_encode (VString s) = JString s"
| "json_encode (VUint32 n) = JNumber (unat n)"
| "json_encode (VUint64 n) = JNumber (unat n)"
| "json_encode (VBytes bs) = JString (base64 bs)"
| "json_encode (VFloat64 n) = JNumber n"

fun json_decode :: "json_value \<Rightarrow> go_value" where
  "json_decode JNull = VNil"
| "json_decode (JString s) = VString s"
| "json_decode (JNumber n) = VFloat64 n"

definition json_Marshal :: "SerializableBackup list \<Rightarrow> file_content" where
  "json_Marshal sbs =
     Json (map (\<lambda>sb. (sb_RootKey sb, sb_Path sb, sb_Name sb, json_encode (sb_Value sb),
                       sb_Type sb, sb_Existed sb)) sbs)"

definition json_Unmarshal :: "file_content \<Rightarrow> error + SerializableBackup list" where
  "json_Unmarshal data =
     (case data of
        Malformed \<Rightarrow> Inl ErrJSONSyntax
      | Json rs \<Rightarrow>
          Inr (map (\<lambda>(r, p, n, v, t, e).
                      \<lparr>sb_RootKey = r, sb_Path = p, sb_Name = n, sb_Value = json_decode v,
                       sb_Type = t, sb_Existed = e\<rparr>) rs))"

section \<open>Package registry\<close>

definition NewManager :: "string \<Rightarrow> 32 word \<Rightarrow> string \<Rightarrow> Manager" where
  "NewManager installPath serverPort dataDir =
     \<lparr>entries =
        [\<lparr>Root = LOCAL_MACHINE, Path = reg_path [''SOFTWARE'', ''RDPLauncher''],
          Name = ''InstallPath'', Value = VString installPath, Type = SZ\<rparr>,
         \<lparr>Root = LOCAL_MACHINE, Path = reg_path [''SOFTWARE'', ''RDPLauncher''],
          Name = ''ServerPort'', Value = VUint32 serverPort, Type = DWORD\<rparr>,
         \<lparr>Root = LOCAL_MACHINE, Path = reg_path [''SOFTWARE'', ''RDPLauncher''],
          Name = ''EnableLogging'', Value = VUint32 1, Type = DWORD\<rparr>,
         \<lparr>Root = LOCAL_MACHINE,
          Path = reg_path [''SOFTWARE'', ''Microsoft'', ''Windows NT'', ''CurrentVersion'',
                           ''Terminal Server'', ''TSAppAllowList''],
          Name = ''fDisabledAllowList'', Value = VUint32 1, Type = DWORD\<rparr>,
         \<lparr>Root = LOCAL_MACHINE,
          Path = reg_path [''SOFTWARE'', ''Policies'', ''Microsoft'', ''Windows NT'',
                           ''Terminal Services''],
          Name = ''fAllowUnlistedRemotePrograms'', Value = VUint32 1, Type = DWORD\<rparr>,
         \<lparr>Root = LOCAL_MACHINE,
          Path = reg_path [''SOFTWARE'', ''Microsoft'', ''Windows NT'', ''CurrentVersion'',
                           ''Winlogon''],
          Name = ''AutoAdminLogon'', Value = VString ''0'', Type = SZ\<rparr>,
         \<lparr>Root = LOCAL_MACHINE,
          Path = reg_path [''SYSTEM'', ''CurrentControlSet'', ''Control'', ''Keyboard Layout''],
          Name = ''IgnoreRemoteKeyboardLayout'', Value = VUint32 1, Type = DWORD\<rparr>,
         \<lparr>Root = LOCAL_MACHINE,
          Path = reg_path [''SYSTEM'', ''CurrentControlSet'', ''Control'', ''Network'',
                           ''NewNetworkWindowOff''],
          Name = [], Value = VString [], Type = SZ\<rparr>,
         \<lparr>Root = CURRENT_USER, Path = reg_path [''SOFTWARE'', ''RDPLauncher'', ''User''],
          Name = ''LastRun'', Value = VString [], Type = SZ\<rparr>],
      backupPath = filepath_Join dataDir ''registry_backup.json''\<rparr>"

subsection \<open>Typed reads and writes\<close>

definition readValue :: "key_id \<Rightarrow> string \<Rightarrow> 32 word \<Rightarrow> world \<Rightarrow> go_value" where
  "readValue k name valueType w =
     (if valueType = SZ \<or> valueType = EXPAND_SZ then
        (case GetStringValue k name w of Inr val \<Rightarrow> VString val | Inl err \<Rightarrow> VNil)
      else if valueType = DWORD then
        (case GetIntegerValue k name w of Inr val \<Rightarrow> VUint32 (ucast val) | Inl err \<Rightarrow> VNil)
      else if valueType = QWORD then
        (case GetIntegerValue k name w of Inr val \<Rightarrow> VUint64 val | Inl err \<Rightarrow> VNil)
      else if valueType = BINARY then
        (case GetBinaryValue k name w of Inr val \<Rightarrow> VBytes val | Inl err \<Rightarrow> VNil)
      else VNil)"

definition writeValue ::
  "key_id \<Rightarrow> string \<Rightarrow> go_value \<Rightarrow> 32 word \<Rightarrow> world \<Rightarrow> error option \<times> world" where
  "writeValue k name v valueType w =
     (if valueType = SZ then
        (case v of VString strVal \<Rightarrow> SetValue k name (REG_SZ strVal) w
         | _ \<Rightarrow> (Some (Errorf ''invalid type for SZ value''), w))
      else if valueType = EXPAND_SZ then
        (case v of VString strVal \<Rightarrow> SetValue k name (REG_EXPAND_SZ strVal) w
         | _ \<Rightarrow> (Some (Errorf ''invalid type for EXPAND_SZ value''), w))
      else if valueType = DWORD then
        (case v of VUint32 intVal \<Rightarrow> SetValue k name (REG_DWORD intVal) w
         | _ \<Rightarrow> (Some (Errorf ''invalid type for DWORD value''), w))
      else if valueType = QWORD then
        (case v of VUint64 intVal \<Rightarrow> SetValue k name (REG_QWORD intVal) w
         | _ \<Rightarrow> (Some (Errorf ''invalid type for QWORD value''), w))
      else if valueType = BINARY then
        (case v of VBytes binVal \<Rightarrow> SetValue k name (REG_BINARY binVal) w
         | _ \<Rightarrow> (Some (Errorf ''invalid type for BINARY value''), w))
      else
        (Some (Errorf (''unsupported registry value type: '' @ decimal (unat valueType))), w))"

subsection \<open>The backup file\<close>

definition SaveBackups :: "Manager \<Rightarrow> Backup list \<Rightarrow> world \<Rightarrow> error option \<times> world" where
  "SaveBackups m backups w =
     (let backupDir = filepath_Dir (backupPath m)
      in if fs_fails w OsMkdirAll backupDir then
           (Some (Wrapf ''failed to create backup directory'' ErrAccessDenied), w)
         else
           let serializableBackups =
                 map (\<lambda>backup.
                        \<lparr>sb_RootKey = ucast (Root (Entry backup)),
                         sb_Path = Path (Entry backup),
                         sb_Name = Name (Entry backup),
                         sb_Value = Value (Entry backup),
                         sb_Type = Type (Entry backup),
                         sb_Existed = Existed backup\<rparr>) backups;
               data = json_Marshal serializableBackups
           in if fs_fails w OsWriteFile (backupPath m) then
                (Some (Wrapf ''failed to write backup file'' ErrAccessDenied), w)
              else (None, w\<lparr>files := AList.update (backupPath m) data (files w)\<rparr>))"

definition LoadBackups :: "Manager \<Rightarrow> world \<Rightarrow> error + Backup list" where
  "LoadBackups m w =
     (case map_of (files w) (backupPath m) of
        None \<Rightarrow> Inl (Errorf (''backup file not found: '' @ backupPath m))
      | Some data \<Rightarrow>
          if fs_fails w OsReadFile (backupPath m) then
            Inl (Wrapf ''failed to read backup file'' ErrAccessDenied)
          else
            (case json_Unmarshal data of
               Inl err \<Rightarrow> Inl (Wrapf ''failed to unmarshal backups'' err)
             | Inr serializableBackups \<Rightarrow>
                 Inr (map (\<lambda>sb.
                             \<lparr>Entry = \<lparr>Root = ucast (sb_RootKey sb), Path = sb_Path sb,
                                       Name = sb_Name sb, Value = sb_Value sb,
                                       Type = sb_Type sb\<rparr>,
                              Existed = sb_Existed sb\<rparr>) serializableBackups)))"

definition DeleteBackupFile :: "Manager \<Rightarrow> world \<Rightarrow> error option \<times> world" where
  "DeleteBackupFile m w =
     (case map_of (files w) (backupPath m) of
        None \<Rightarrow> (None, w)
      | Some data \<Rightarrow>
          if fs_fails w OsRemove (backupPath m) then
            (Some (Wrapf ''failed to delete backup file'' ErrAccessDenied), w)
          else (None, w\<lparr>files := AList.delete (backupPath m) (files w)\<rparr>))"

subsection \<open>Creating entries\<close>

definition create :: "Entry \<Rightarrow> world \<Rightarrow> (Backup \<times> error option) \<times> world" where
  "create entry w =
     (let backup = \<lparr>Entry = entry, Existed = False\<rparr>;
          backup =
            (case OpenKey (Root entry) (Path entry) QUERY_VALUE w of
               Inr k \<Rightarrow>
                 (let backup = backup\<lparr>Existed := True\<rparr>
                  in if Name entry \<noteq> [] then
                       backup\<lparr>Entry :=
                         (Entry backup)\<lparr>Value := readValue k (Name entry) (Type entry) w\<rparr>\<rparr>
                     else backup)
             | Inl err \<Rightarrow> backup)
      in case CreateKey (Root entry) (Path entry) SET_VALUE w of
           (Inl err, w1) \<Rightarrow> ((backup, Some (Wrapf ''failed to create key'' err)), w1)
         | (Inr k, w1) \<Rightarrow>
             if Name entry \<noteq> [] then
               (case writeValue k (Name entry) (Value entry) (Type entry) w1 of
                  (Some err, w2) \<Rightarrow> ((backup, Some (Wrapf ''failed to write value'' err)), w2)
                | (None, w2) \<Rightarrow> ((backup, None), w2))
             else ((backup, None), w1))"

text \<open>The loop of \<open>CreateAll\<close>, with the two slices it appends to.\<close>

fun CreateAll_loop ::
  "Entry list \<Rightarrow> Backup list \<Rightarrow> error list \<Rightarrow> world \<Rightarrow> (Backup list \<times> error list) \<times> world" where
  "CreateAll_loop [] backups errors w = ((backups, errors), w)"
| "CreateAll_loop (entry # rest) backups errors w =
     (case create entry w of
        ((backup, Some err), w1) \<Rightarrow>
          CreateAll_loop rest backups
            (errors @ [Wrapf (''failed to create '' @ Path entry @ sep @ Name entry) err]) w1
      | ((backup, None), w1) \<Rightarrow> CreateAll_loop rest (backups @ [backup]) errors w1)"

definition CreateAll :: "Manager \<Rightarrow> world \<Rightarrow> (Backup list \<times> error option) \<times> world" where
  "CreateAll m w =
     (case CreateAll_loop (entries m) [] [] w of
        ((backups, errors), w1) \<Rightarrow>
          (case SaveBackups m backups w1 of
             (Some err, w2) \<Rightarrow> ((backups, Some (Wrapf ''failed to save backups'' err)), w2)
           | (None, w2) \<Rightarrow>
               if length errors > 0 then
                 ((backups, Some (Encountered (length errors) ''registry creation'')), w2)
               else ((backups, None), w2)))"

subsection \<open>Removing and restoring\<close>

definition removeValue :: "Key \<Rightarrow> string \<Rightarrow> string \<Rightarrow> world \<Rightarrow> error option \<times> world" where
  "removeValue root path name w =
     (case OpenKey root path SET_VALUE w of
        Inl err \<Rightarrow> (None, w)
      | Inr k \<Rightarrow>
          (case DeleteValue k name w of
             (Some err, w1) \<Rightarrow>
               if err \<noteq> ErrNotExist then
                 (Some (Wrapf (''failed to delete '' @ path @ sep @ name) err), w1)
               else (None, w1)
           | (None, w1) \<Rightarrow> (None, w1)))"

definition removeEmptyKey :: "Key \<Rightarrow> string \<Rightarrow> world \<Rightarrow> error option \<times> world" where
  "removeEmptyKey root path w =
     (case OpenKey root path QUERY_VALUE w of
        Inl err \<Rightarrow> (None, w)
      | Inr k \<Rightarrow>
          (case ReadValueNames k w of
             Inl err \<Rightarrow> (None, w)
           | Inr valueNames \<Rightarrow>
               if length valueNames > 0 then (None, w)
               else
                 (case DeleteKey root path w of
                    (Some err, w1) \<Rightarrow>
                      if err \<noteq> ErrNotExist then
                        (Some (Wrapf (''failed to delete key '' @ path) err), w1)
                      else (None, w1)
                  | (None, w1) \<Rightarrow> (None, w1))))"

definition restore :: "Backup \<Rightarrow> world \<Rightarrow> error option \<times> world" where
  "restore backup w =
     (if \<not> Existed backup then
        (if Name (Entry backup) \<noteq> [] then
           removeValue (Root (Entry backup)) (Path (Entry backup)) (Name (Entry backup)) w
         else (None, w))
      else
        (case CreateKey (Root (Entry backup)) (Path (Entry backup)) SET_VALUE w of
           (Inl err, w1) \<Rightarrow>
             (Some (Wrapf (''failed to open key '' @ Path (Entry backup)) err), w1)
         | (Inr k, w1) \<Rightarrow>
             if Name (Entry backup) \<noteq> [] \<and> Value (Entry backup) \<noteq> VNil then
               writeValue k (Name (Entry backup)) (Value (Entry backup)) (Type (Entry backup)) w1
             else (None, w1)))"

fun Restore_loop :: "Backup list \<Rightarrow> error list \<Rightarrow> world \<Rightarrow> error list \<times> world" where
  "Restore_loop [] errors w = (errors, w)"
| "Restore_loop (backup # rest) errors w =
     (case restore backup w of
        (Some err, w1) \<Rightarrow> Restore_loop rest (errors @ [err]) w1
      | (None, w1) \<Rightarrow> Restore_loop rest errors w1)"

definition Restore :: "Backup list \<Rightarrow> world \<Rightarrow> error option \<times> world" where
  "Restore backups w =
     (case Restore_loop backups [] w of
        (errors, w1) \<Rightarrow>
          if length errors > 0 then
            (Some (Encountered (length errors) ''registry restoration''), w1)
          else (None, w1))"

text \<open>The branch of \<open>RemoveAll\<close> taken when the backups cannot be loaded.\<close>

fun RemoveAll_values :: "Entry list \<Rightarrow> error list \<Rightarrow> world \<Rightarrow> error list \<times> world" where
  "RemoveAll_values [] errors w = (errors, w)"
| "RemoveAll_values (entry # rest) errors w =
     (if Name entry \<noteq> [] then
        (case removeValue (Root entry) (Path entry) (Name entry) w of
           (Some err, w1) \<Rightarrow> RemoveAll_values rest (errors @ [err]) w1
         | (None, w1) \<Rightarrow> RemoveAll_values rest errors w1)
      else RemoveAll_values rest errors w)"

definition serviceSpecificPaths :: "string list" where
  "serviceSpecificPaths =
     [reg_path [''SOFTWARE'', ''RDPLauncher''], reg_path [''SOFTWARE'', ''RDPLauncher'', ''User'']]"

text \<open>
  The loop that removes the service's own keys when they are empty. \<open>processedPaths\<close> is
  keyed in the source by the root printed in decimal, a separator and the path, which
  names the pair (root, path).
\<close>

fun RemoveAll_keys ::
  "Entry list \<Rightarrow> key_id list \<Rightarrow> error list \<Rightarrow> world \<Rightarrow> error list \<times> world" where
  "RemoveAll_keys [] processedPaths errors w = (errors, w)"
| "RemoveAll_keys (entry # rest) processedPaths errors w =
     (let keyPath = (Root entry, Path entry)
      in if keyPath \<notin> set processedPaths \<and> Path entry \<in> set serviceSpecificPaths then
           (case removeEmptyKey (Root entry) (Path entry) w of
              (Some err, w1) \<Rightarrow>
                RemoveAll_keys rest (keyPath # processedPaths) (errors @ [err]) w1
            | (None, w1) \<Rightarrow> RemoveAll_keys rest (keyPath # processedPaths) errors w1)
         else RemoveAll_keys rest processedPaths errors w)"

definition RemoveAll :: "Manager \<Rightarrow> world \<Rightarrow> error option \<times> world" where
  "RemoveAll m w =
     (case (case LoadBackups m w of
              Inl err \<Rightarrow> RemoveAll_values (entries m) [] w
            | Inr backups \<Rightarrow>
                (case Restore backups w of
                   (Some err, w1) \<Rightarrow> ([Wrapf ''failed to restore backups'' err], w1)
                 | (None, w1) \<Rightarrow> ([], w1))) of
        (errors, w1) \<Rightarrow>
          (case RemoveAll_keys (entries m) [] errors w1 of
             (errors, w2) \<Rightarrow>
               (case (case DeleteBackupFile m w2 of
                        (Some err, w3) \<Rightarrow>
                          (errors @ [Wrapf ''failed to delete backup file'' err], w3)
                      | (None, w3) \<Rightarrow> (errors, w3)) of
                  (errors, w3) \<Rightarrow>
                    if length errors > 0 then
                      (Some (Encountered (length errors) ''registry cleanup''), w3)
                    else (None, w3))))"

section \<open>Configuration and logging\<close>

record Config =
  ServerPort :: string
  LogPath :: string
  Environment :: string
  InstallPath :: string
  EnableLogging :: bool
  DataDirectory :: string

definition Development :: string where "Development = ''development''"
definition Production :: string where "Production = ''production''"

definition getEnvironment :: "world \<Rightarrow> string" where
  "getEnvironment w =
     (let env = environ w ''GO_ENV''
      in if env = ''production'' \<or> env = ''prod'' then Production else Development)"

definition getLogPath :: "string \<Rightarrow> string" where
  "getLogPath env =
     (if env = Development then ''service_debug.log''
      else reg_path [''C:'', ''ProgramData'', ''RDPLauncher'', ''service.log''])"

definition getEnvOrDefault :: "string \<Rightarrow> string \<Rightarrow> world \<Rightarrow> string" where
  "getEnvOrDefault key defaultValue w =
     (let v = environ w key in if v \<noteq> [] then v else defaultValue)"

definition config_New :: "world \<Rightarrow> Config" where
  "config_New w =
     (let env = getEnvironment w
      in \<lparr>ServerPort = getEnvOrDefault ''SERVER_PORT'' ''8080'' w,
          LogPath = getLogPath env,
          Environment = env,
          InstallPath =
            getEnvOrDefault ''INSTALL_PATH'' (reg_path [''C:'', ''Program Files'', ''RDPLauncher'']) w,
          EnableLogging = True,
          DataDirectory =
            getEnvOrDefault ''DATA_DIR'' (reg_path [''C:'', ''ProgramData'', ''RDPLauncher'']) w\<rparr>)"

text \<open>
  The logger: a line is written when its level is at least the logger's minimum. A line is
  kept as its level and message; the time stamp and the key/value context are left out.
\<close>

definition LevelDebug :: Level where "LevelDebug = 0"
definition LevelInfo :: Level where "LevelInfo = 1"
definition LevelWarn :: Level where "LevelWarn = 2"
definition LevelError :: Level where "LevelError = 3"
definition LevelFatal :: Level where "LevelFatal = 4"

record Logger =
  level :: Level

definition logger_New :: "string \<Rightarrow> Logger" where
  "logger_New env = \<lparr>level = (if env = ''development'' then LevelDebug else LevelInfo)\<rparr>"

definition logger_log :: "Logger \<Rightarrow> Level \<Rightarrow> string \<Rightarrow> world \<Rightarrow> world" where
  "logger_log l lvl msg w =
     (if lvl < level l then w else w\<lparr>log_lines := log_lines w @ [(lvl, msg)]\<rparr>)"

definition Debug :: "Logger \<Rightarrow> string \<Rightarrow> world \<Rightarrow> world" where
  "Debug l msg w = logger_log l LevelDebug msg w"

definition Info :: "Logger \<Rightarrow> string \<Rightarrow> world \<Rightarrow> world" where
  "Info l msg w = logger_log l LevelInfo msg w"

definition Warn :: "Logger \<Rightarrow> string \<Rightarrow> world \<Rightarrow> world" where
  "Warn l msg w = logger_log l LevelWarn msg w"

definition Error :: "Logger \<Rightarrow> string \<Rightarrow> world \<Rightarrow> world" where
  "Error l msg w = logger_log l LevelError msg w"

section \<open>Library calls of package service\<close>

text \<open>
  \<open>strconv.ParseUint(s, 10, bitSize)\<close>, on \<open>uint64\<close> as in the library: the empty string and
  a character that is not a decimal digit are syntax errors with value 0; a value beyond
  the bit size is a range error with the largest value of that size. The characters are
  read from the left, so the error met first decides.
\<close>

definition is_digit :: "char \<Rightarrow> bool" where
  "is_digit c = (48 \<le> (of_char c :: nat) \<and> (of_char c :: nat) \<le> 57)"

fun ParseUint_loop :: "string \<Rightarrow> 64 word \<Rightarrow> 64 word \<Rightarrow> 64 word \<times> error option" where
  "ParseUint_loop [] maxVal n = (n, None)"
| "ParseUint_loop (c # cs) maxVal n =
     (if \<not> is_digit c then (0, Some ErrSyntax)
      else if n \<ge> (- 1) div 10 + 1 then (maxVal, Some ErrRange)
      else
        let n10 = n * 10;
            n1 = n10 + (of_char c - 48)
        in if n1 < n10 \<or> n1 > maxVal then (maxVal, Some ErrRange)
           else ParseUint_loop cs maxVal n1)"

definition ParseUint :: "string \<Rightarrow> nat \<Rightarrow> 64 word \<times> error option" where
  "ParseUint s bitSize =
     (if s = [] then (0, Some ErrSyntax) else ParseUint_loop s (2 ^ bitSize - 1) 0)"

text \<open>The states of a service (\<open>svc.State\<close>, a \<open>uint32\<close>); 0 is the state of the zero \<open>Status\<close>.\<close>

definition Stopped :: "32 word" where "Stopped = 1"
definition StartPending :: "32 word" where "StartPending = 2"
definition StopPending :: "32 word" where "StopPending = 3"
definition Running :: "32 word" where "Running = 4"

text \<open>
  The service manager. A service is known by its name; its executable path, display name,
  description and start type are not kept. What \<open>Control(svc.Stop)\<close> and \<open>Query\<close> answer at a
  given time is the environment's. \<open>Control\<close> returns a status together with its error: package
  \<open>mgr\<close> gives the zero status with most errors, and the state of the service with the errors
  that only say that the control was not accepted, as for a service that is not active.
\<close>

definition mgr_Connect :: "world \<Rightarrow> error option" where
  "mgr_Connect w = (if connect_fails w then Some ErrAccessDenied else None)"

definition OpenService :: "string \<Rightarrow> world \<Rightarrow> error + string" where
  "OpenService name w = (if name \<in> set (services w) then Inr name else Inl ErrNotExist)"

definition CreateService :: "string \<Rightarrow> string \<Rightarrow> string \<Rightarrow> world \<Rightarrow> (error + string) \<times> world" where
  "CreateService name exepath desc w =
     (if create_fails w name \<or> name \<in> set (services w) then (Inl ErrAccessDenied, w)
      else (Inr name, w\<lparr>services := services w @ [name]\<rparr>))"

definition svc_Start :: "string \<Rightarrow> world \<Rightarrow> error option" where
  "svc_Start s w = (if start_fails w s then Some ErrAccessDenied else None)"

definition svc_Control_Stop :: "string \<Rightarrow> world \<Rightarrow> 32 word \<times> error option" where
  "svc_Control_Stop s w = control_stop w s (clock w)"

definition svc_Query :: "string \<Rightarrow> world \<Rightarrow> error + 32 word" where
  "svc_Query s w = query w s (clock w)"

definition svc_Delete :: "string \<Rightarrow> world \<Rightarrow> error option \<times> world" where
  "svc_Delete s w =
     (if delete_fails w s then (Some ErrAccessDenied, w)
      else (None, w\<lparr>services := removeAll s (services w)\<rparr>))"

text \<open>\<open>time.Sleep(d)\<close> pauses for at least \<open>d\<close> milliseconds.\<close>

definition Sleep :: "nat \<Rightarrow> world \<Rightarrow> world" where
  "Sleep d w = w\<lparr>clock := clock w + d + sleep_overrun w (clock w)\<rparr>"

definition os_MkdirAll :: "string \<Rightarrow> world \<Rightarrow> error option" where
  "os_MkdirAll dir w = (if fs_fails w OsMkdirAll dir then Some ErrAccessDenied else None)"

section \<open>Package service\<close>

definition Install :: "string \<Rightarrow> string \<Rightarrow> Logger \<Rightarrow> world \<Rightarrow> error option \<times> world" where
  "Install name desc lg w =
     (case executable w of
        Inl err \<Rightarrow> (Some (Wrapf ''failed to get executable path'' err), w)
      | Inr exepath \<Rightarrow>
          let w = Info lg ''Installing service'' w;
              cfg = config_New w
          in case os_MkdirAll (DataDirectory cfg) w of
               Some err \<Rightarrow> (Some (Wrapf ''failed to create data directory'' err), w)
             | None \<Rightarrow>
                 let port = fst (ParseUint (ServerPort cfg) 32);
                     regMgr = NewManager (InstallPath cfg) (ucast port) (DataDirectory cfg);
                     w = Info lg ''Creating registry entries'' w
                 in case CreateAll regMgr w of
                      ((backups, err), w) \<Rightarrow>
                        let w = (case err of
                                   Some e \<Rightarrow> Warn lg ''Some registry entries failed to create'' w
                                 | None \<Rightarrow> Info lg ''Registry entries created and backed up'' w)
                        in case mgr_Connect w of
                             Some err \<Rightarrow>
                               let w = Error lg
                                     ''Failed to connect to service manager, rolling back'' w;
                                   w = snd (RemoveAll regMgr w)
                               in (Some (Wrapf ''failed to connect to service manager'' err), w)
                           | None \<Rightarrow>
                               (case OpenService name w of
                                  Inr s \<Rightarrow>
                                    let w = Error lg ''Service already exists, rolling back'' w;
                                        w = snd (RemoveAll regMgr w)
                                    in (Some (Errorf (''service '' @ name @ '' already exists'')), w)
                                | Inl err \<Rightarrow>
                                    (case CreateService name exepath desc w of
                                       (Inl err, w) \<Rightarrow>
                                         let w = Error lg
                                               ''Failed to create service, rolling back'' w;
                                             w = snd (RemoveAll regMgr w)
                                         in (Some (Wrapf ''failed to create service'' err), w)
                                     | (Inr s, w) \<Rightarrow>
                                         let w = Info lg ''Service created successfully'' w;
                                             w = (case svc_Start s w of
                                                    Some err \<Rightarrow>
                                                      Warn lg
                                                        ''Service created but failed to start'' w
                                                  | None \<Rightarrow>
                                                      Info lg ''Service started successfully'' w)
                                         in (None, w))))"

text \<open>
  The wait loop of \<open>Remove\<close>: it ends on the state \<open>Stopped\<close>, on the deadline and on a failed
  query, and in each case \<open>Remove\<close> goes on.
\<close>

function Remove_wait :: "Logger \<Rightarrow> string \<Rightarrow> nat \<Rightarrow> 32 word \<Rightarrow> world \<Rightarrow> world" where
  "Remove_wait lg s timeout state w =
     (if state \<noteq> Stopped then
        (if clock w > timeout then Warn lg ''Service did not stop within timeout'' w
         else
           let w1 = Sleep 500 w
           in case svc_Query s w1 of
                Inl err \<Rightarrow> Warn lg ''Failed to query service status'' w1
              | Inr st \<Rightarrow> Remove_wait lg s timeout st w1)
      else w)"
  by pat_completeness auto
termination
  by (relation "measure (\<lambda>(lg, s, timeout, state, w). timeout + 500 - clock w)")
     (auto simp: Sleep_def)

declare Remove_wait.simps [simp del]

definition Remove :: "string \<Rightarrow> Logger \<Rightarrow> world \<Rightarrow> error option \<times> world" where
  "Remove name lg w =
     (let w = Info lg ''Removing service'' w
      in case mgr_Connect w of
           Some err \<Rightarrow> (Some (Wrapf ''failed to connect to service manager'' err), w)
         | None \<Rightarrow>
             (case OpenService name w of
                Inl err \<Rightarrow> (Some (Wrapf (''service '' @ name @ '' is not installed'') err), w)
              | Inr s \<Rightarrow>
                  let w = Info lg ''Stopping service'' w;
                      (state, w) =
                        (case svc_Control_Stop s w of
                           (st, Some err) \<Rightarrow> (st, Warn lg ''Failed to stop service'' w)
                         | (st, None) \<Rightarrow> (st, Debug lg ''Service stop initiated'' w));
                      timeout = clock w + 30000;
                      w = Remove_wait lg s timeout state w;
                      w = Info lg ''Deleting service'' w
                  in case svc_Delete s w of
                       (Some err, w) \<Rightarrow> (Some (Wrapf ''failed to delete service'' err), w)
                     | (None, w) \<Rightarrow>
                         let w = Info lg ''Service deleted successfully'' w;
                             w = Info lg ''Restoring registry entries from backup'' w;
                             cfg = config_New w;
                             port = fst (ParseUint (ServerPort cfg) 32);
                             regMgr = NewManager (InstallPath cfg) (ucast port)
                                        (DataDirectory cfg)
                         in case RemoveAll regMgr w of
                              (Some err, w) \<Rightarrow>
                                (None, Warn lg ''Some registry entries failed to restore'' w)
                            | (None, w) \<Rightarrow>
                                (None,
                                 Info lg
                                   ''Registry entries restored from backup successfully'' w)))"

definition Start :: "string \<Rightarrow> Logger \<Rightarrow> world \<Rightarrow> error option \<times> world" where
  "Start name lg w =
     (let w = Info lg ''Starting service'' w
      in case mgr_Connect w of
           Some err \<Rightarrow> (Some (Wrapf ''failed to connect to service manager'' err), w)
         | None \<Rightarrow>
             (case OpenService name w of
                Inl err \<Rightarrow> (Some (Wrapf ''could not access service'' err), w)
              | Inr s \<Rightarrow>
                  (case svc_Start s w of
                     Some err \<Rightarrow> (Some (Wrapf ''could not start service'' err), w)
                   | None \<Rightarrow> (None, Info lg ''Service started successfully'' w))))"

text \<open>The wait loop of \<open>Stop\<close>: the deadline and a failed query are returned as errors.\<close>

function Stop_wait :: "string \<Rightarrow> nat \<Rightarrow> 32 word \<Rightarrow> world \<Rightarrow> error option \<times> world" where
  "Stop_wait s timeout state w =
     (if state \<noteq> Stopped then
        (if clock w > timeout then (Some (Errorf ''service did not stop within timeout''), w)
         else
           let w1 = Sleep 500 w
           in case svc_Query s w1 of
                Inl err \<Rightarrow> (Some (Wrapf ''could not query service status'' err), w1)
              | Inr st \<Rightarrow> Stop_wait s timeout st w1)
      else (None, w))"
  by pat_completeness auto
termination
  by (relation "measure (\<lambda>(s, timeout, state, w). timeout + 500 - clock w)")
     (auto simp: Sleep_def)

declare Stop_wait.simps [simp del]

definition Stop :: "string \<Rightarrow> Logger \<Rightarrow> world \<Rightarrow> error option \<times> world" where
  "Stop name lg w =
     (let w = Info lg ''Stopping service'' w
      in case mgr_Connect w of
           Some err \<Rightarrow> (Some (Wrapf ''failed to connect to service manager'' err), w)
         | None \<Rightarrow>
             (case OpenService name w of
                Inl err \<Rightarrow> (Some (Wrapf ''could not access service'' err), w)
              | Inr s \<Rightarrow>
                  (case svc_Control_Stop s w of
                     (st, Some err) \<Rightarrow> (Some (Wrapf ''could not send stop control'' err), w)
                   | (state, None) \<Rightarrow>
                       let w = Info lg ''Stop signal sent'' w;
                           timeout = clock w + 30000
                       in case Stop_wait s timeout state w of
                            (Some err, w) \<Rightarrow> (Some err, w)
                          | (None, w) \<Rightarrow> (None, Info lg ''Service stopped successfully'' w))))"

section \<open>Example environments\<close>

text \<open>An environment in which nothing exists yet and nothing fails.\<close>

definition fresh_world :: world where
  "fresh_world =
     \<lparr>registry = [], reg_denied = (\<lambda>k a. False), files = [], fs_fails = (\<lambda>op p. False),
      environ = (\<lambda>k. []), executable = Inr ''service.exe'', connect_fails = False,
      services = [], create_fails = (\<lambda>n. False), start_fails = (\<lambda>n. False),
      delete_fails = (\<lambda>n. False), control_stop = (\<lambda>n t. (StopPending, None)),
      query = (\<lambda>n t. Inr Stopped), clock = 0, sleep_overrun = (\<lambda>t. 0), log_lines = []\<rparr>"

definition example_manager :: Manager where
  "example_manager = NewManager (reg_path [''C:'', ''App'']) 8085 (reg_path [''C:'', ''Data''])"

text \<open>
  A registry that already holds the service's key with two values, one of them not the
  catalog's, and a backup file that is not JSON.
\<close>

definition malformed_world :: world where
  "malformed_world =
     fresh_world\<lparr>registry := [((LOCAL_MACHINE, reg_path [''SOFTWARE'', ''RDPLauncher'']),
                                [(''InstallPath'', REG_SZ ''x''), (''Other'', REG_DWORD 7)])],
                  files := [(backupPath example_manager, Malformed)]\<rparr>"

section \<open>Auxiliary notions for the proofs\<close>

text \<open>
  The part of the environment that only package service touches: the installed services,
  the clock and the log.
\<close>

definition svc_upd :: "string list \<Rightarrow> nat \<Rightarrow> (Level \<times> string) list \<Rightarrow> world \<Rightarrow> world" where
  "svc_upd s c l w = w\<lparr>services := s, clock := c, log_lines := l\<rparr>"

definition svc_changed :: "world \<Rightarrow> world \<Rightarrow> bool" where
  "svc_changed w w' = (\<exists>s c l. w' = svc_upd s c l w)"

text \<open>The manager that \<open>Install\<close>, \<open>Remove\<close> and the backup commands build from the configuration.\<close>

definition config_manager :: "world \<Rightarrow> Manager" where
  "config_manager w =
     (let cfg = config_New w
      in NewManager (InstallPath cfg) (ucast (fst (ParseUint (ServerPort cfg) 32)))
           (DataDirectory cfg))"

text \<open>
  The service is installed, its key exists and is empty, and the registry refuses to delete
  keys: \<open>RemoveAll\<close> fails there.
\<close>

definition remove_world :: world where
  "remove_world =
     fresh_world\<lparr>services := [''RDPLauncher''],
                  registry := [((LOCAL_MACHINE, reg_path [''SOFTWARE'', ''RDPLauncher'']), [])],
                  reg_denied := (\<lambda>k a. a = DELETE)\<rparr>"

text \<open>The same, with a service manager that refuses to delete the service.\<close>

definition undeletable_world :: world where
  "undeletable_world = remove_world\<lparr>delete_fails := (\<lambda>n. True)\<rparr>"


text \<open>The error that \<open>Stop\<close> returns when the deadline has passed.\<close>

abbreviation timeout_error :: error where
  "timeout_error \<equiv> Errorf ''service did not stop within timeout''"

text \<open>
  The service is installed and answers every query with StopPending; and the same with a
  service that is stopped from 1500 ms on.
\<close>

definition pending_world :: world where
  "pending_world =
     fresh_world\<lparr>services := [''RDPLauncher''], query := (\<lambda>n t. Inr StopPending)\<rparr>"

definition stopping_world :: world where
  "stopping_world =
     fresh_world\<lparr>services := [''RDPLauncher''],
                  query := (\<lambda>n t. if t < 1500 then Inr StopPending else Inr Stopped)\<rparr>"






section \<open>Registry operations leave the files alone\<close>









section \<open>Package registry does not depend on services, clock and log\<close>

lemma svc_changed_refl: "svc_changed w w"
  unfolding svc_changed_def svc_upd_def
  by (rule exI [of _ "services w"], rule exI [of _ "clock w"], rule exI [of _ "log_lines w"])
     simp

lemma svc_changed_trans: "svc_changed w w1 \<Longrightarrow> svc_changed w1 w2 \<Longrightarrow> svc_changed w w2"
  unfolding svc_changed_def svc_upd_def by (elim exE) (simp, blast)

lemma removeValue_svc_upd:
  "removeValue root path name (svc_upd s c l w) =
     map_prod id (svc_upd s c l) (removeValue root path name w)"
  by (simp add: svc_upd_def removeValue_def OpenKey_def DeleteValue_def GetValue_def
      split: option.splits sum.splits)

lemma removeEmptyKey_svc_upd:
  "removeEmptyKey root path (svc_upd s c l w) =
     map_prod id (svc_upd s c l) (removeEmptyKey root path w)"
  by (simp add: svc_upd_def removeEmptyKey_def OpenKey_def ReadValueNames_def DeleteKey_def
      split: option.splits sum.splits)

lemma writeValue_svc_upd:
  "writeValue k name v t (svc_upd s c l w) = map_prod id (svc_upd s c l) (writeValue k name v t w)"
  by (simp add: svc_upd_def writeValue_def SetValue_def split: go_value.splits)

lemma CreateKey_svc_upd:
  "CreateKey root path a (svc_upd s c l w) = map_prod id (svc_upd s c l) (CreateKey root path a w)"
  by (simp add: svc_upd_def CreateKey_def split: option.splits)

lemma restore_svc_upd:
  "restore b (svc_upd s c l w) = map_prod id (svc_upd s c l) (restore b w)"
  by (cases "CreateKey (Root (Entry b)) (Path (Entry b)) SET_VALUE w")
     (simp add: restore_def removeValue_svc_upd writeValue_svc_upd CreateKey_svc_upd
      split: sum.splits)

lemma Restore_loop_svc_upd:
  "Restore_loop bs errors (svc_upd s c l w) =
     map_prod id (svc_upd s c l) (Restore_loop bs errors w)"
proof (induction bs arbitrary: errors w)
  case Nil
  show ?case by simp
next
  case (Cons b bs)
  show ?case
    by (cases "restore b w") (auto simp: restore_svc_upd Cons.IH split: option.splits)
qed

lemma Restore_svc_upd:
  "Restore bs (svc_upd s c l w) = map_prod id (svc_upd s c l) (Restore bs w)"
  by (cases "Restore_loop bs [] w") (simp add: Restore_def Restore_loop_svc_upd)

lemma RemoveAll_values_svc_upd:
  "RemoveAll_values es errors (svc_upd s c l w) =
     map_prod id (svc_upd s c l) (RemoveAll_values es errors w)"
proof (induction es arbitrary: errors w)
  case Nil
  show ?case by simp
next
  case (Cons e es)
  show ?case
    by (cases "removeValue (Root e) (Path e) (Name e) w")
       (auto simp: removeValue_svc_upd Cons.IH split: option.splits)
qed

lemma RemoveAll_keys_svc_upd:
  "RemoveAll_keys es processed errors (svc_upd s c l w) =
     map_prod id (svc_upd s c l) (RemoveAll_keys es processed errors w)"
proof (induction es arbitrary: processed errors w)
  case Nil
  show ?case by simp
next
  case (Cons e es)
  show ?case
    by (cases "removeEmptyKey (Root e) (Path e) w")
       (auto simp: removeEmptyKey_svc_upd Cons.IH Let_def split: option.splits)
qed

lemma LoadBackups_svc_upd: "LoadBackups m (svc_upd s c l w) = LoadBackups m w"
  by (simp add: LoadBackups_def svc_upd_def split: option.splits)

lemma DeleteBackupFile_svc_upd:
  "DeleteBackupFile m (svc_upd s c l w) = map_prod id (svc_upd s c l) (DeleteBackupFile m w)"
  by (simp add: DeleteBackupFile_def svc_upd_def split: option.splits)

lemma RemoveAll_svc_upd:
  "RemoveAll m (svc_upd s c l w) = map_prod id (svc_upd s c l) (RemoveAll m w)"
proof (cases "LoadBackups m w")
  case (Inl err)
  obtain e1 w1 where v: "RemoveAll_values (entries m) [] w = (e1, w1)"
    by (cases "RemoveAll_values (entries m) [] w")
  obtain e2 w2 where k: "RemoveAll_keys (entries m) [] e1 w1 = (e2, w2)"
    by (cases "RemoveAll_keys (entries m) [] e1 w1")
  show ?thesis
    by (cases "DeleteBackupFile m w2")
       (simp add: RemoveAll_def LoadBackups_svc_upd Inl RemoveAll_values_svc_upd v
          RemoveAll_keys_svc_upd k DeleteBackupFile_svc_upd split: option.splits)
next
  case (Inr backups)
  obtain r w1 where v: "Restore backups w = (r, w1)"
    by (cases "Restore backups w")
  obtain e2 w2 where k:
    "RemoveAll_keys (entries m) []
       (case r of Some err \<Rightarrow> [Wrapf ''failed to restore backups'' err] | None \<Rightarrow> []) w1 = (e2, w2)"
    by (cases "RemoveAll_keys (entries m) []
       (case r of Some err \<Rightarrow> [Wrapf ''failed to restore backups'' err] | None \<Rightarrow> []) w1")
  show ?thesis
    using k
    by (cases "DeleteBackupFile m w2"; cases r)
       (simp_all add: RemoveAll_def LoadBackups_svc_upd Inr Restore_svc_upd v
          RemoveAll_keys_svc_upd DeleteBackupFile_svc_upd split: option.splits)
qed

section \<open>What package service changes before it reaches the registry\<close>

text \<open>
  Logging, sleeping, waiting for the service to stop and deleting it change the services,
  the clock and the log only.
\<close>

lemma svc_changed_fields:
  assumes "svc_changed w w'"
  shows "registry w' = registry w" "reg_denied w' = reg_denied w" "files w' = files w"
    "fs_fails w' = fs_fails w" "environ w' = environ w" "executable w' = executable w"
    "connect_fails w' = connect_fails w" "create_fails w' = create_fails w"
    "start_fails w' = start_fails w" "delete_fails w' = delete_fails w"
    "control_stop w' = control_stop w" "query w' = query w"
    "sleep_overrun w' = sleep_overrun w"
  using assms by (auto simp: svc_changed_def svc_upd_def)

lemma svc_changedI:
  assumes "registry w' = registry w" "reg_denied w' = reg_denied w" "files w' = files w"
    "fs_fails w' = fs_fails w" "environ w' = environ w" "executable w' = executable w"
    "connect_fails w' = connect_fails w" "create_fails w' = create_fails w"
    "start_fails w' = start_fails w" "delete_fails w' = delete_fails w"
    "control_stop w' = control_stop w" "query w' = query w"
    "sleep_overrun w' = sleep_overrun w"
  shows "svc_changed w w'"
proof -
  have "w' = svc_upd (services w') (clock w') (log_lines w') w"
    using assms by (intro world.equality) (simp_all add: svc_upd_def)
  then show ?thesis
    unfolding svc_changed_def by blast
qed

lemma svc_changed_log: "svc_changed w (logger_log lg lvl msg w)"
  by (rule svc_changedI) (simp_all add: logger_log_def)

lemma svc_changed_logs:
  "svc_changed w (Debug lg msg w)" "svc_changed w (Info lg msg w)"
  "svc_changed w (Warn lg msg w)" "svc_changed w (Error lg msg w)"
  by (simp_all add: Debug_def Info_def Warn_def Error_def svc_changed_log)

lemma services_logs:
  "services (Debug lg msg w) = services w" "services (Info lg msg w) = services w"
  "services (Warn lg msg w) = services w" "services (Error lg msg w) = services w"
  by (simp_all add: Debug_def Info_def Warn_def Error_def logger_log_def)

lemma svc_changed_Sleep: "svc_changed w (Sleep d w)"
  by (rule svc_changedI) (simp_all add: Sleep_def)

lemma svc_changed_Delete: "svc_changed w (snd (svc_Delete s w))"
  by (rule svc_changedI) (simp_all add: svc_Delete_def)

lemma svc_changed_Remove_wait: "svc_changed w (Remove_wait lg s timeout state w)"
proof (induction lg s timeout state w rule: Remove_wait.induct)
  case (1 lg s timeout state w)
  show ?case
  proof (cases "state \<noteq> Stopped \<and> \<not> clock w > timeout")
    case False
    then show ?thesis
      by (auto simp: Remove_wait.simps [of lg s timeout state w] svc_changed_logs svc_changed_refl)
  next
    case True
    show ?thesis
    proof (cases "svc_Query s (Sleep 500 w)")
      case (Inl err)
      with True show ?thesis
        by (simp add: Remove_wait.simps [of lg s timeout state w])
           (blast intro: svc_changed_trans svc_changed_Sleep svc_changed_logs)
    next
      case (Inr st)
      with True "1.IH" [of "Sleep 500 w" st] show ?thesis
        by (simp add: Remove_wait.simps [of lg s timeout state w])
           (blast intro: svc_changed_trans svc_changed_Sleep)
    qed
  qed
qed

lemma services_Remove_wait: "services (Remove_wait lg s timeout state w) = services w"
proof (induction lg s timeout state w rule: Remove_wait.induct)
  case (1 lg s timeout state w)
  show ?case
  proof (cases "state \<noteq> Stopped \<and> \<not> clock w > timeout")
    case False
    then show ?thesis
      by (auto simp: Remove_wait.simps [of lg s timeout state w] services_logs)
  next
    case True
    show ?thesis
    proof (cases "svc_Query s (Sleep 500 w)")
      case (Inl err)
      with True show ?thesis
        by (simp add: Remove_wait.simps [of lg s timeout state w] services_logs Sleep_def)
    next
      case (Inr st)
      with True "1.IH" [of "Sleep 500 w" st] show ?thesis
        by (simp add: Remove_wait.simps [of lg s timeout state w] Sleep_def)
    qed
  qed
qed


lemma RemoveAll_svc_changed:
  assumes "svc_changed w w'"
  shows "fst (RemoveAll m w') = fst (RemoveAll m w)"
    and "svc_changed (snd (RemoveAll m w)) (snd (RemoveAll m w'))"
proof -
  obtain s c l where w': "w' = svc_upd s c l w"
    using assms unfolding svc_changed_def by blast
  show "fst (RemoveAll m w') = fst (RemoveAll m w)"
    by (simp add: w' RemoveAll_svc_upd)
  show "svc_changed (snd (RemoveAll m w)) (snd (RemoveAll m w'))"
    unfolding svc_changed_def by (simp add: w' RemoveAll_svc_upd) blast
qed

lemma config_New_cong: "environ w' = environ w \<Longrightarrow> config_New w' = config_New w"
  by (simp add: config_New_def getEnvironment_def getEnvOrDefault_def)

lemma Remove_unfold:
  assumes "\<not> connect_fails w" and "name \<in> set (services w)"
  obtains w5 where "svc_changed w w5" and "services w5 = services w"
    and "Remove name lg w =
      (case svc_Delete name w5 of
         (Some err, w6) \<Rightarrow> (Some (Wrapf ''failed to delete service'' err), w6)
       | (None, w6) \<Rightarrow>
           let w7 = Info lg ''Restoring registry entries from backup''
                      (Info lg ''Service deleted successfully'' w6);
               cfg = config_New w7;
               regMgr = NewManager (InstallPath cfg) (ucast (fst (ParseUint (ServerPort cfg) 32)))
                          (DataDirectory cfg)
           in case RemoveAll regMgr w7 of
                (Some err, w8) \<Rightarrow> (None, Warn lg ''Some registry entries failed to restore'' w8)
              | (None, w8) \<Rightarrow>
                  (None, Info lg ''Registry entries restored from backup successfully'' w8))"
proof -
  define w2 where "w2 = Info lg ''Stopping service'' (Info lg ''Removing service'' w)"
  define sw where "sw = (case svc_Control_Stop name w2 of
                           (st, Some err) \<Rightarrow> (st, Warn lg ''Failed to stop service'' w2)
                         | (st, None) \<Rightarrow> (st, Debug lg ''Service stop initiated'' w2))"
  define w5 where "w5 = Info lg ''Deleting service''
                          (Remove_wait lg name (clock (snd sw) + 30000) (fst sw) (snd sw))"
  have c2: "svc_changed w w2" and s2: "services w2 = services w"
    unfolding w2_def
    by (blast intro: svc_changed_trans svc_changed_logs) (simp add: services_logs)
  have c3: "svc_changed w (snd sw)"
    unfolding sw_def
    by (cases "svc_Control_Stop name w2")
       (auto split: option.splits intro: svc_changed_trans [OF c2] svc_changed_logs)
  have s3: "services (snd sw) = services w"
    unfolding sw_def
    by (cases "svc_Control_Stop name w2") (simp_all add: services_logs s2 split: option.splits)
  have c5: "svc_changed w w5"
    unfolding w5_def
    by (blast intro: svc_changed_trans c3 svc_changed_Remove_wait svc_changed_logs)
  have s5: "services w5 = services w"
    unfolding w5_def by (simp add: services_logs services_Remove_wait s3)
  have conn: "mgr_Connect (Info lg ''Removing service'' w) = None"
    using assms(1) by (simp add: mgr_Connect_def Info_def logger_log_def)
  have op: "OpenService name (Info lg ''Removing service'' w) = Inr name"
    using assms(2) by (simp add: OpenService_def services_logs)
  have "Remove name lg w =
      (case svc_Delete name w5 of
         (Some err, w6) \<Rightarrow> (Some (Wrapf ''failed to delete service'' err), w6)
       | (None, w6) \<Rightarrow>
           let w7 = Info lg ''Restoring registry entries from backup''
                      (Info lg ''Service deleted successfully'' w6);
               cfg = config_New w7;
               regMgr = NewManager (InstallPath cfg) (ucast (fst (ParseUint (ServerPort cfg) 32)))
                          (DataDirectory cfg)
           in case RemoveAll regMgr w7 of
                (Some err, w8) \<Rightarrow> (None, Warn lg ''Some registry entries failed to restore'' w8)
              | (None, w8) \<Rightarrow>
                  (None, Info lg ''Registry entries restored from backup successfully'' w8))"
    unfolding Remove_def Let_def conn op w5_def sw_def w2_def
    by (simp split: sum.splits prod.splits option.splits)
  with c5 s5 show ?thesis
    using that by blast
qed

section \<open>What removal does to the values of the registry\<close>

text \<open>
  \<open>removeValue\<close> deletes the one value it names, when the key can be opened for writing, and
  \<open>removeEmptyKey\<close> deletes only a key that holds no value: every other value stays as it is.
\<close>

lemma GetValue_files_update [simp]: "GetValue k n (w\<lparr>files := f\<rparr>) = GetValue k n w"
  by (simp add: GetValue_def)

lemma GetValue_SetValue:
  "GetValue k n (snd (SetValue k' n' v w)) =
     (if k = k' \<and> n = n' \<and> map_of (registry w) k' \<noteq> None then Some v else GetValue k n w)"
  by (auto simp: GetValue_def SetValue_def map_of_map_entry update_conv' split: option.splits)


lemma GetValue_CreateKey: "GetValue k n (snd (CreateKey root path a w)) = GetValue k n w"
  by (auto simp: GetValue_def CreateKey_def update_conv' split: option.splits)




lemma reg_denied_removeEmptyKey: "reg_denied (snd (removeEmptyKey root path w)) = reg_denied w"
  by (simp add: removeEmptyKey_def OpenKey_def ReadValueNames_def DeleteKey_def
      split: option.splits sum.splits)




section \<open>The wait loop of Stop\<close>

text \<open>
  The loop is a total function: its termination is proved with the definition, from the
  clock that every \<open>Sleep\<close> advances by at least 500 ms towards the deadline. The lemmas
  say what it returns: success at the first poll that sees Stopped, the timeout error
  when no poll up to the deadline does, and in general nothing but success, the timeout
  after the deadline, or the error of a failed query.
\<close>

lemma Stop_wait_Stopped: "Stop_wait s t Stopped w = (None, w)"
  by (simp add: Stop_wait.simps)

lemma Stop_wait_success:
  assumes "\<forall>x. sleep_overrun w x = 0" and "st \<noteq> Stopped" and "1 \<le> j"
    and "clock w + 500 * (j - 1) \<le> t"
    and "\<forall>i. 1 \<le> i \<and> i < j \<longrightarrow> (\<exists>s. query w name (clock w + 500 * i) = Inr s \<and> s \<noteq> Stopped)"
    and "query w name (clock w + 500 * j) = Inr Stopped"
  shows "Stop_wait name t st w = (None, w\<lparr>clock := clock w + 500 * j\<rparr>)"
  using assms
proof (induction j arbitrary: w st)
  case 0
  then show ?case by simp
next
  case (Suc j)
  let ?w1 = "Sleep 500 w"
  have w1: "?w1 = w\<lparr>clock := clock w + 500\<rparr>"
    using Suc.prems(1) by (simp add: Sleep_def)
  have le: "\<not> clock w > t"
    using Suc.prems(4) by simp
  show ?case
  proof (cases "j = 0")
    case True
    then have "svc_Query name ?w1 = Inr Stopped"
      using Suc.prems(6) by (simp add: svc_Query_def w1)
    then show ?thesis
      using Suc.prems(2) le True
      by (simp add: Stop_wait.simps [of name t st w] Stop_wait_Stopped Let_def w1)
  next
    case False
    then obtain s where q: "query w name (clock w + 500) = Inr s" and s: "s \<noteq> Stopped"
      using Suc.prems(5) [rule_format, of 1] by auto
    have "Stop_wait name t s ?w1 = (None, ?w1\<lparr>clock := clock ?w1 + 500 * j\<rparr>)"
    proof (rule Suc.IH)
      show "\<forall>x. sleep_overrun ?w1 x = 0" using Suc.prems(1) by (simp add: w1)
      show "s \<noteq> Stopped" by (rule s)
      show "1 \<le> j" using False by simp
      show "clock ?w1 + 500 * (j - 1) \<le> t" using Suc.prems(4) False by (simp add: w1)
      show "\<forall>i. 1 \<le> i \<and> i < j \<longrightarrow>
              (\<exists>s. query ?w1 name (clock ?w1 + 500 * i) = Inr s \<and> s \<noteq> Stopped)"
      proof (intro allI impI)
        fix i assume "1 \<le> i \<and> i < j"
        then show "\<exists>s. query ?w1 name (clock ?w1 + 500 * i) = Inr s \<and> s \<noteq> Stopped"
          using Suc.prems(5) [rule_format, of "Suc i"] by (simp add: w1 add.assoc)
      qed
      show "query ?w1 name (clock ?w1 + 500 * j) = Inr Stopped"
        using Suc.prems(6) by (simp add: w1 add.assoc)
    qed
    then show ?thesis
      using Suc.prems(2) le q
      by (simp add: Stop_wait.simps [of name t st w] Let_def svc_Query_def w1 add.assoc)
  qed
qed


lemma Stop_wait_timeout:
  assumes "st \<noteq> Stopped"
    and "\<forall>x. \<exists>s. query w name x = Inr s \<and> s \<noteq> Stopped"
  shows "fst (Stop_wait name t st w) = Some timeout_error \<and> t < clock (snd (Stop_wait name t st w))"
  using assms
proof (induction name t st w rule: Stop_wait.induct)
  case (1 name t st w)
  show ?case
  proof (cases "clock w > t")
    case True
    then show ?thesis
      using "1.prems"(1) by (simp add: Stop_wait.simps [of name t st w])
  next
    case False
    let ?w1 = "Sleep 500 w"
    obtain s where q: "svc_Query name ?w1 = Inr s" and s: "s \<noteq> Stopped"
      using "1.prems"(2) by (auto simp: svc_Query_def Sleep_def)
    have "\<forall>x. \<exists>s. query ?w1 name x = Inr s \<and> s \<noteq> Stopped"
      using "1.prems"(2) by (simp add: Sleep_def)
    then have "fst (Stop_wait name t s ?w1) = Some timeout_error \<and>
        t < clock (snd (Stop_wait name t s ?w1))"
      using "1.IH" [OF "1.prems"(1) False refl q s] by blast
    then show ?thesis
      using "1.prems"(1) False q by (simp add: Stop_wait.simps [of name t st w] Let_def)
  qed
qed

lemma Stop_wait_deadline:
  assumes "\<forall>x. sleep_overrun w x = 0" and "st \<noteq> Stopped"
    and "\<forall>i. 1 \<le> i \<and> clock w + 500 * i \<le> t + 500 \<longrightarrow>
           (\<exists>s. query w name (clock w + 500 * i) = Inr s \<and> s \<noteq> Stopped)"
  shows "Stop_wait name t st w =
     (Some timeout_error,
      w\<lparr>clock := (if clock w > t then clock w
                   else clock w + 500 * ((t - clock w) div 500 + 1))\<rparr>)"
  using assms
proof (induction name t st w rule: Stop_wait.induct)
  case (1 name t st w)
  show ?case
  proof (cases "clock w > t")
    case True
    then show ?thesis
      using "1.prems"(2) by (simp add: Stop_wait.simps [of name t st w])
  next
    case False
    let ?w1 = "Sleep 500 w"
    have w1: "?w1 = w\<lparr>clock := clock w + 500\<rparr>"
      using "1.prems"(1) by (simp add: Sleep_def)
    obtain s where q: "svc_Query name ?w1 = Inr s" and s: "s \<noteq> Stopped"
      using "1.prems"(3) [rule_format, of 1] False by (auto simp: svc_Query_def w1)
    have ih: "Stop_wait name t s ?w1 =
       (Some timeout_error,
        ?w1\<lparr>clock := (if clock ?w1 > t then clock ?w1
                       else clock ?w1 + 500 * ((t - clock ?w1) div 500 + 1))\<rparr>)"
    proof (rule "1.IH" [OF "1.prems"(2) False refl q])
      show "\<forall>x. sleep_overrun ?w1 x = 0" using "1.prems"(1) by (simp add: w1)
      show "s \<noteq> Stopped" by (rule s)
      show "\<forall>i. 1 \<le> i \<and> clock ?w1 + 500 * i \<le> t + 500 \<longrightarrow>
              (\<exists>s. query ?w1 name (clock ?w1 + 500 * i) = Inr s \<and> s \<noteq> Stopped)"
      proof (intro allI impI)
        fix i assume "1 \<le> i \<and> clock ?w1 + 500 * i \<le> t + 500"
        then show "\<exists>s. query ?w1 name (clock ?w1 + 500 * i) = Inr s \<and> s \<noteq> Stopped"
          using "1.prems"(3) [rule_format, of "Suc i"] by (simp add: w1 add.assoc)
      qed
    qed
    have ar: "(if clock w + 500 > t then clock w + 500
               else clock w + 500 + 500 * ((t - (clock w + 500)) div 500 + 1))
              = clock w + 500 * ((t - clock w) div 500 + 1)"
      using False by (auto simp: le_div_geq)
    have c1: "clock ?w1 = clock w + 500"
      by (simp add: w1)
    have e: "?w1\<lparr>clock := x\<rparr> = w\<lparr>clock := x\<rparr>" for x
      by (simp add: w1)
    have ih': "Stop_wait name t s ?w1 =
       (Some timeout_error, w\<lparr>clock := clock w + 500 * ((t - clock w) div 500 + 1)\<rparr>)"
      using ih by (simp only: c1 ar e)
    have "Stop_wait name t st w = Stop_wait name t s ?w1"
      using "1.prems"(2) False q by (simp add: Stop_wait.simps [of name t st w] Let_def)
    then show ?thesis
      using False by (simp only: ih' if_False)
  qed
qed


lemma Stop_wait_result:
  "case fst (Stop_wait name t st w) of
     None \<Rightarrow> st = Stopped \<or> (\<exists>x. query w name x = Inr Stopped)
   | Some err \<Rightarrow>
       err = timeout_error \<and> t < clock (snd (Stop_wait name t st w)) \<or>
       (\<exists>e x. query w name x = Inl e \<and> err = Wrapf ''could not query service status'' e)"
proof (induction name t st w rule: Stop_wait.induct)
  case (1 name t st w)
  show ?case
  proof (cases "st = Stopped \<or> clock w > t")
    case True
    then show ?thesis
      by (auto simp: Stop_wait.simps [of name t st w])
  next
    case False
    let ?w1 = "Sleep 500 w"
    have q1: "query ?w1 = query w"
      by (simp add: Sleep_def)
    show ?thesis
    proof (cases "svc_Query name ?w1")
      case (Inl e)
      then have "query w name (clock ?w1) = Inl e"
        by (simp add: svc_Query_def q1)
      then show ?thesis
        using False Inl by (auto simp: Stop_wait.simps [of name t st w] Let_def)
    next
      case (Inr s)
      have eq: "Stop_wait name t st w = Stop_wait name t s ?w1"
        using False Inr by (simp add: Stop_wait.simps [of name t st w] Let_def)
      have "s = Stopped \<Longrightarrow> query w name (clock ?w1) = Inr Stopped"
        using Inr by (simp add: svc_Query_def q1)
      then show ?thesis
        using "1.IH" [OF _ _ refl Inr] False
        by (auto simp: eq q1 split: option.splits)
    qed
  qed
qed

lemma log_fields:
  "clock (logger_log lg lvl msg w) = clock w" "query (logger_log lg lvl msg w) = query w"
  "sleep_overrun (logger_log lg lvl msg w) = sleep_overrun w"
  "connect_fails (logger_log lg lvl msg w) = connect_fails w"
  "services (logger_log lg lvl msg w) = services w"
  "control_stop (logger_log lg lvl msg w) = control_stop w"
  by (simp_all add: logger_log_def)

lemma Stop_unfold:
  assumes "\<not> connect_fails w" and "name \<in> set (services w)"
    and "control_stop w name (clock w) = (st, None)"
  obtains w1 where "clock w1 = clock w" and "query w1 = query w"
    and "sleep_overrun w1 = sleep_overrun w"
    and "Stop name lg w =
      (case Stop_wait name (clock w + 30000) st w1 of
         (Some err, w2) \<Rightarrow> (Some err, w2)
       | (None, w2) \<Rightarrow> (None, Info lg ''Service stopped successfully'' w2))"
proof -
  let ?w1 = "Info lg ''Stop signal sent'' (Info lg ''Stopping service'' w)"
  have "Stop name lg w =
      (case Stop_wait name (clock w + 30000) st ?w1 of
         (Some err, w2) \<Rightarrow> (Some err, w2)
       | (None, w2) \<Rightarrow> (None, Info lg ''Service stopped successfully'' w2))"
    using assms
    by (simp add: Stop_def Let_def mgr_Connect_def OpenService_def svc_Control_Stop_def
        Info_def log_fields)
  moreover have "clock ?w1 = clock w" "query ?w1 = query w"
    "sleep_overrun ?w1 = sleep_overrun w"
    by (simp_all add: Info_def log_fields)
  ultimately show ?thesis
    using that by blast
qed

section \<open>The loop of CreateAll\<close>











section \<open>The entry catalog\<close>

text \<open>
  C6 (as stated). The catalog built from install path \<open>C:\App\<close>, port 8085 and data
  directory \<open>C:\Data\<close> would contain the entry (LOCAL_MACHINE, \<open>SOFTWARE\App\<close>, ServerPort,
  8085, DWORD). It does not: no entry of the catalog lies under \<open>SOFTWARE\App\<close>.
\<close>

theorem NewManager_example_counterexample:
  "\<lparr>Root = LOCAL_MACHINE, Path = reg_path [''SOFTWARE'', ''App''],
    Name = ''ServerPort'', Value = VUint32 8085, Type = DWORD\<rparr>
   \<notin> set (entries (NewManager (reg_path [''C:'', ''App'']) 8085 (reg_path [''C:'', ''Data''])))"
  by (simp add: NewManager_def sep_def)

text \<open>
  C6 (amended). For every install path, port and data directory, the catalog contains the
  entry (LOCAL_MACHINE, \<open>SOFTWARE\RDPLauncher\<close>, ServerPort, the port, DWORD), and it is the
  only entry named ServerPort: the key path is a constant of the program and does not follow
  the install path. For install path \<open>C:\App\<close>, port 8085 and data directory \<open>C:\Data\<close> this
  is the entry (LOCAL_MACHINE, \<open>SOFTWARE\RDPLauncher\<close>, ServerPort, 8085, DWORD).
\<close>

theorem NewManager_ServerPort_entry:
  "\<lparr>Root = LOCAL_MACHINE, Path = reg_path [''SOFTWARE'', ''RDPLauncher''],
    Name = ''ServerPort'', Value = VUint32 serverPort, Type = DWORD\<rparr>
     \<in> set (entries (NewManager installPath serverPort dataDir)) \<and>
   filter (\<lambda>e. Name e = ''ServerPort'') (entries (NewManager installPath serverPort dataDir)) =
     [\<lparr>Root = LOCAL_MACHINE, Path = reg_path [''SOFTWARE'', ''RDPLauncher''],
       Name = ''ServerPort'', Value = VUint32 serverPort, Type = DWORD\<rparr>] \<and>
   \<lparr>Root = LOCAL_MACHINE, Path = reg_path [''SOFTWARE'', ''RDPLauncher''],
    Name = ''ServerPort'', Value = VUint32 8085, Type = DWORD\<rparr>
     \<in> set (entries (NewManager (reg_path [''C:'', ''App'']) 8085 (reg_path [''C:'', ''Data''])))"
  by (simp add: NewManager_def)

section \<open>RemoveAll on a malformed backup file\<close>





text \<open>
  What \<open>RemoveAll\<close> leaves there: no error, the catalog's value deleted, the other value
  kept and with it the key.
\<close>

lemma RemoveAll_malformed_example:
  "fst (RemoveAll example_manager malformed_world) = None \<and>
   registry (snd (RemoveAll example_manager malformed_world)) =
     [((LOCAL_MACHINE, reg_path [''SOFTWARE'', ''RDPLauncher'']), [(''Other'', REG_DWORD 7)])]"
  by code_simp

section \<open>Remove\<close>

text \<open>
  C8. With the service manager reachable and the service installed: when deleting the
  service fails, \<open>Remove\<close> returns that failure and registry and files are as before (the
  registry cleanup is not reached); when deleting succeeds, \<open>Remove\<close> returns success whatever
  \<open>RemoveAll\<close> reports, the registry and the files are what \<open>RemoveAll\<close> leaves, and a
  failure of \<open>RemoveAll\<close> shows only as the last log line, a warning.
\<close>

theorem Remove_delete_fatal_cleanup_best_effort:
  assumes conn: "\<not> connect_fails w" and inst: "name \<in> set (services w)"
    and lvl: "level lg \<le> LevelWarn"
  shows "(delete_fails w name \<longrightarrow>
            fst (Remove name lg w) = Some (Wrapf ''failed to delete service'' ErrAccessDenied) \<and>
            registry (snd (Remove name lg w)) = registry w \<and>
            files (snd (Remove name lg w)) = files w) \<and>
         (\<not> delete_fails w name \<longrightarrow>
            fst (Remove name lg w) = None \<and>
            name \<notin> set (services (snd (Remove name lg w))) \<and>
            registry (snd (Remove name lg w)) = registry (snd (RemoveAll (config_manager w) w)) \<and>
            files (snd (Remove name lg w)) = files (snd (RemoveAll (config_manager w) w)) \<and>
            (fst (RemoveAll (config_manager w) w) \<noteq> None \<longrightarrow>
               last (log_lines (snd (Remove name lg w)))
                 = (LevelWarn, ''Some registry entries failed to restore'')))"
proof -
  obtain w5 where c5: "svc_changed w w5" and s5: "services w5 = services w"
    and rem: "Remove name lg w =
      (case svc_Delete name w5 of
         (Some err, w6) \<Rightarrow> (Some (Wrapf ''failed to delete service'' err), w6)
       | (None, w6) \<Rightarrow>
           let w7 = Info lg ''Restoring registry entries from backup''
                      (Info lg ''Service deleted successfully'' w6);
               cfg = config_New w7;
               regMgr = NewManager (InstallPath cfg) (ucast (fst (ParseUint (ServerPort cfg) 32)))
                          (DataDirectory cfg)
           in case RemoveAll regMgr w7 of
                (Some err, w8) \<Rightarrow> (None, Warn lg ''Some registry entries failed to restore'' w8)
              | (None, w8) \<Rightarrow>
                  (None, Info lg ''Registry entries restored from backup successfully'' w8))"
    using Remove_unfold [OF conn inst, of lg] by blast
  note f5 = svc_changed_fields [OF c5]
  have fatal: "fst (Remove name lg w) = Some (Wrapf ''failed to delete service'' ErrAccessDenied) \<and>
      registry (snd (Remove name lg w)) = registry w \<and> files (snd (Remove name lg w)) = files w"
    if "delete_fails w name"
    using that by (simp add: rem svc_Delete_def f5)
  have ok: "fst (Remove name lg w) = None \<and>
      name \<notin> set (services (snd (Remove name lg w))) \<and>
      registry (snd (Remove name lg w)) = registry (snd (RemoveAll (config_manager w) w)) \<and>
      files (snd (Remove name lg w)) = files (snd (RemoveAll (config_manager w) w)) \<and>
      (fst (RemoveAll (config_manager w) w) \<noteq> None \<longrightarrow>
         last (log_lines (snd (Remove name lg w)))
           = (LevelWarn, ''Some registry entries failed to restore''))"
    if nd: "\<not> delete_fails w name"
  proof -
    define w6 where "w6 = w5\<lparr>services := removeAll name (services w5)\<rparr>"
    define w7 where "w7 = Info lg ''Restoring registry entries from backup''
                      (Info lg ''Service deleted successfully'' w6)"
    have del: "svc_Delete name w5 = (None, w6)"
      using nd by (simp add: svc_Delete_def f5 w6_def)
    have c6: "svc_changed w5 w6"
      using svc_changed_Delete [of w5 name] by (simp add: del)
    have c7: "svc_changed w w7"
      unfolding w7_def by (blast intro: svc_changed_trans c5 c6 svc_changed_logs)
    have s7: "services w7 = removeAll name (services w)"
      by (simp add: w7_def services_logs w6_def s5)
    have m7: "NewManager (InstallPath (config_New w7))
                (ucast (fst (ParseUint (ServerPort (config_New w7)) 32)))
                (DataDirectory (config_New w7)) = config_manager w"
      by (simp add: config_manager_def Let_def config_New_cong [OF svc_changed_fields(5) [OF c7]])
    obtain r w8 where ra: "RemoveAll (config_manager w) w7 = (r, w8)"
      by (cases "RemoveAll (config_manager w) w7")
    have r: "r = fst (RemoveAll (config_manager w) w)"
      using RemoveAll_svc_changed(1) [OF c7, of "config_manager w"] by (simp add: ra)
    have c8: "svc_changed (snd (RemoveAll (config_manager w) w)) w8"
      using RemoveAll_svc_changed(2) [OF c7, of "config_manager w"] by (simp add: ra)
    have s8: "services w8 = services w7"
    proof -
      obtain s c l where e: "w7 = svc_upd s c l w"
        using c7 unfolding svc_changed_def by blast
      have "snd (RemoveAll (config_manager w) w7)
              = svc_upd s c l (snd (RemoveAll (config_manager w) w))"
        by (simp add: e RemoveAll_svc_upd)
      then have "w8 = svc_upd s c l (snd (RemoveAll (config_manager w) w))"
        by (simp add: ra)
      then show ?thesis
        by (simp add: e svc_upd_def)
    qed
    have rem': "Remove name lg w =
        (case r of Some err \<Rightarrow> (None, Warn lg ''Some registry entries failed to restore'' w8)
         | None \<Rightarrow> (None, Info lg ''Registry entries restored from backup successfully'' w8))"
      by (simp add: rem del Let_def w7_def [symmetric] m7 ra split: option.splits)
    have warn: "last (log_lines (Warn lg ''Some registry entries failed to restore'' w8))
        = (LevelWarn, ''Some registry entries failed to restore'')"
      using lvl by (simp add: Warn_def logger_log_def)
    show ?thesis
      using svc_changed_fields(1,3) [OF c8] s8 s7 warn
      by (cases r)
         (auto simp: rem' r [symmetric] services_logs
            svc_changed_fields(1,3) [OF svc_changed_logs(2)]
            svc_changed_fields(1,3) [OF svc_changed_logs(3)])
  qed
  show ?thesis
    using fatal ok by blast
qed

text \<open>
  The theorem at \<open>undeletable_world\<close>, where the deletion fails, and at \<open>remove_world\<close>,
  where it succeeds and \<open>RemoveAll\<close> fails.
\<close>

theorem Remove_delete_fatal_cleanup_best_effort_witness:
  "fst (Remove ''RDPLauncher'' (logger_New ''production'') undeletable_world)
     = Some (Wrapf ''failed to delete service'' ErrAccessDenied) \<and>
   registry (snd (Remove ''RDPLauncher'' (logger_New ''production'') undeletable_world))
     = registry undeletable_world \<and>
   fst (RemoveAll (config_manager remove_world) remove_world) \<noteq> None \<and>
   fst (Remove ''RDPLauncher'' (logger_New ''production'') remove_world) = None \<and>
   last (log_lines (snd (Remove ''RDPLauncher'' (logger_New ''production'') remove_world)))
     = (LevelWarn, ''Some registry entries failed to restore'')"
proof -
  let ?lg = "logger_New ''production''"
  have lvl: "level ?lg \<le> LevelWarn"
    by (simp add: logger_New_def LevelInfo_def LevelWarn_def)
  have p1: "\<not> connect_fails remove_world" "''RDPLauncher'' \<in> set (services remove_world)"
    "\<not> delete_fails remove_world ''RDPLauncher''"
    by (simp_all add: remove_world_def fresh_world_def)
  have p2: "\<not> connect_fails undeletable_world"
    "''RDPLauncher'' \<in> set (services undeletable_world)"
    "delete_fails undeletable_world ''RDPLauncher''"
    by (simp_all add: undeletable_world_def remove_world_def fresh_world_def)
  have ra: "fst (RemoveAll (config_manager remove_world) remove_world) \<noteq> None"
    by code_simp
  show ?thesis
    using Remove_delete_fatal_cleanup_best_effort [OF p1(1,2) lvl]
      Remove_delete_fatal_cleanup_best_effort [OF p2(1,2) lvl] p1(3) p2(3) ra
    by blast
qed

section \<open>Stop\<close>

text \<open>
  C7. \<open>Stop\<close> sends the stop control and then polls the state every 500 ms against a
  deadline 30 s after the control; the loop terminates (the function is total, with the
  termination proof of \<open>Stop_wait\<close>). With the service manager reachable, the service
  installed and the control accepted with state \<open>st\<close>: if \<open>st\<close> is Stopped, \<open>Stop\<close> succeeds at
  once; if no query ever answers Stopped (and none fails), \<open>Stop\<close> returns the timeout error
  after the deadline; when sleeping takes exactly its 500 ms, the polls are at 500, 1000, ...
  ms after the control, \<open>Stop\<close> succeeds at the first of the 61 polls up to 30500 ms that
  answers Stopped, and returns the timeout error at 30500 ms when none of them does; and
  whatever the environment answers, \<open>Stop\<close> returns success only after Stopped was seen, the
  timeout error only after the deadline, or else the error of a failed query.
\<close>

theorem Stop_returns_success_or_timeout:
  assumes conn: "\<not> connect_fails w" and inst: "name \<in> set (services w)"
    and ctl: "control_stop w name (clock w) = (st, None)"
  shows "(st = Stopped \<longrightarrow>
            fst (Stop name lg w) = None \<and> clock (snd (Stop name lg w)) = clock w) \<and>
         (st \<noteq> Stopped \<and> (\<forall>x. \<exists>s. query w name x = Inr s \<and> s \<noteq> Stopped) \<longrightarrow>
            fst (Stop name lg w) = Some (Errorf ''service did not stop within timeout'') \<and>
            clock w + 30000 < clock (snd (Stop name lg w))) \<and>
         (st \<noteq> Stopped \<and> (\<forall>x. sleep_overrun w x = 0) \<and> 1 \<le> j \<and> j \<le> 61 \<and>
          (\<forall>i. 1 \<le> i \<and> i < j \<longrightarrow>
                (\<exists>s. query w name (clock w + 500 * i) = Inr s \<and> s \<noteq> Stopped)) \<and>
          query w name (clock w + 500 * j) = Inr Stopped \<longrightarrow>
            fst (Stop name lg w) = None \<and>
            clock (snd (Stop name lg w)) = clock w + 500 * j) \<and>
         (st \<noteq> Stopped \<and> (\<forall>x. sleep_overrun w x = 0) \<and>
          (\<forall>i. 1 \<le> i \<and> i \<le> 61 \<longrightarrow>
                (\<exists>s. query w name (clock w + 500 * i) = Inr s \<and> s \<noteq> Stopped)) \<longrightarrow>
            fst (Stop name lg w) = Some (Errorf ''service did not stop within timeout'') \<and>
            clock (snd (Stop name lg w)) = clock w + 30500) \<and>
         (case fst (Stop name lg w) of
            None \<Rightarrow> st = Stopped \<or> (\<exists>x. query w name x = Inr Stopped)
          | Some err \<Rightarrow>
              err = Errorf ''service did not stop within timeout'' \<and>
                clock w + 30000 < clock (snd (Stop name lg w)) \<or>
              (\<exists>e x. query w name x = Inl e \<and>
                     err = Wrapf ''could not query service status'' e))"
proof -
  obtain w1 where c1: "clock w1 = clock w" and q1: "query w1 = query w"
    and o1: "sleep_overrun w1 = sleep_overrun w"
    and stop: "Stop name lg w =
      (case Stop_wait name (clock w + 30000) st w1 of
         (Some err, w2) \<Rightarrow> (Some err, w2)
       | (None, w2) \<Rightarrow> (None, Info lg ''Service stopped successfully'' w2))"
    using Stop_unfold [OF conn inst ctl, of lg] by blast
  let ?t = "clock w + 30000"
  have a: "fst (Stop name lg w) = None \<and> clock (snd (Stop name lg w)) = clock w"
    if "st = Stopped"
    using that by (simp add: stop Stop_wait_Stopped Info_def log_fields c1)
  have b: "fst (Stop name lg w) = Some timeout_error \<and> clock w + 30000 < clock (snd (Stop name lg w))"
    if "st \<noteq> Stopped" "\<forall>x. \<exists>s. query w name x = Inr s \<and> s \<noteq> Stopped"
    using Stop_wait_timeout [where st = st and w = w1 and name = name and t = "?t"] that
    by (cases "Stop_wait name ?t st w1") (simp add: stop q1)
  have c: "fst (Stop name lg w) = None \<and> clock (snd (Stop name lg w)) = clock w + 500 * j"
    if "st \<noteq> Stopped" "\<forall>x. sleep_overrun w x = 0" "1 \<le> j" "j \<le> 61"
      "\<forall>i. 1 \<le> i \<and> i < j \<longrightarrow> (\<exists>s. query w name (clock w + 500 * i) = Inr s \<and> s \<noteq> Stopped)"
      "query w name (clock w + 500 * j) = Inr Stopped"
  proof -
    have "Stop_wait name ?t st w1 = (None, w1\<lparr>clock := clock w1 + 500 * j\<rparr>)"
      using that by (intro Stop_wait_success) (simp_all add: c1 q1 o1)
    then show ?thesis
      by (simp add: stop Info_def log_fields c1)
  qed
  have d: "fst (Stop name lg w) = Some timeout_error \<and>
      clock (snd (Stop name lg w)) = clock w + 30500"
    if "st \<noteq> Stopped" "\<forall>x. sleep_overrun w x = 0"
      "\<forall>i. 1 \<le> i \<and> i \<le> 61 \<longrightarrow> (\<exists>s. query w name (clock w + 500 * i) = Inr s \<and> s \<noteq> Stopped)"
  proof -
    have "Stop_wait name ?t st w1 =
       (Some timeout_error,
        w1\<lparr>clock := (if clock w1 > ?t then clock w1
                      else clock w1 + 500 * ((?t - clock w1) div 500 + 1))\<rparr>)"
      using that by (intro Stop_wait_deadline) (simp_all add: c1 q1 o1)
    then show ?thesis
      by (simp add: stop c1)
  qed
  have e: "case fst (Stop name lg w) of
            None \<Rightarrow> st = Stopped \<or> (\<exists>x. query w name x = Inr Stopped)
          | Some err \<Rightarrow>
              err = timeout_error \<and> clock w + 30000 < clock (snd (Stop name lg w)) \<or>
              (\<exists>e x. query w name x = Inl e \<and>
                     err = Wrapf ''could not query service status'' e)"
    using Stop_wait_result [where st = st and w = w1 and name = name and t = "?t"]
    by (cases "Stop_wait name ?t st w1") (auto simp: stop q1 split: option.splits)
  show ?thesis
    using a b c d e by blast
qed

text \<open>
  The theorem at \<open>pending_world\<close>, where the state stays StopPending and the timeout is
  returned at 30500 ms, and at \<open>stopping_world\<close>, where the third poll sees Stopped.
\<close>

theorem Stop_returns_success_or_timeout_witness:
  "fst (Stop ''RDPLauncher'' (logger_New ''production'') pending_world)
     = Some (Errorf ''service did not stop within timeout'') \<and>
   clock (snd (Stop ''RDPLauncher'' (logger_New ''production'') pending_world)) = 30500 \<and>
   fst (Stop ''RDPLauncher'' (logger_New ''production'') stopping_world) = None \<and>
   clock (snd (Stop ''RDPLauncher'' (logger_New ''production'') stopping_world)) = 1500"
proof -
  let ?lg = "logger_New ''production''"
  have ne: "StopPending \<noteq> Stopped"
    by (simp add: StopPending_def Stopped_def)
  have p: "\<not> connect_fails pending_world" "''RDPLauncher'' \<in> set (services pending_world)"
    "control_stop pending_world ''RDPLauncher'' (clock pending_world) = (StopPending, None)"
    "\<forall>x. sleep_overrun pending_world x = 0" "clock pending_world = 0"
    "\<forall>i. 1 \<le> i \<and> i \<le> 61 \<longrightarrow>
       (\<exists>s. query pending_world ''RDPLauncher'' (clock pending_world + 500 * i) = Inr s \<and>
            s \<noteq> Stopped)"
    using ne by (simp_all add: pending_world_def fresh_world_def)
  have s: "\<not> connect_fails stopping_world" "''RDPLauncher'' \<in> set (services stopping_world)"
    "control_stop stopping_world ''RDPLauncher'' (clock stopping_world) = (StopPending, None)"
    "\<forall>x. sleep_overrun stopping_world x = 0" "clock stopping_world = 0"
    "query stopping_world ''RDPLauncher'' (clock stopping_world + 500 * 3) = Inr Stopped"
    by (simp_all add: stopping_world_def fresh_world_def)
  have s': "\<forall>i. 1 \<le> i \<and> i < 3 \<longrightarrow>
       (\<exists>s. query stopping_world ''RDPLauncher'' (clock stopping_world + 500 * i) = Inr s \<and>
            s \<noteq> Stopped)"
    using ne by (auto simp: stopping_world_def fresh_world_def)
  have "fst (Stop ''RDPLauncher'' ?lg pending_world)
      = Some (Errorf ''service did not stop within timeout'') \<and>
    clock (snd (Stop ''RDPLauncher'' ?lg pending_world)) = clock pending_world + 30500"
    using Stop_returns_success_or_timeout [OF p(1,2,3), where j = 1 and lg = "?lg"] ne p(4,6) by blast
  moreover have "fst (Stop ''RDPLauncher'' ?lg stopping_world) = None \<and>
    clock (snd (Stop ''RDPLauncher'' ?lg stopping_world)) = clock stopping_world + 500 * 3"
    using Stop_returns_success_or_timeout [OF s(1,2,3), where j = 3 and lg = "?lg"] ne s(4,6) s' by force
  ultimately show ?thesis
    by (simp add: p(5) s(5))
qed

section \<open>CreateAll: the backups returned\<close>




section \<open>CreateAll: partial failure\<close>



end
